theory Spec2Isabelle
  imports Complex_Main "HOL-Library.AList" "HOL-Library.Product_Lexorder"
begin

section \<open>Strings and the built-in conversions the sources call\<close>

text \<open>
  A Python \<open>str\<close> is modelled as a \<open>string\<close> holding the bytes of its UTF-8 encoding.
  Every byte of a non-ASCII code point is at least 128, so \<open>encode('ascii', 'ignore')\<close>
  drops exactly those bytes and \<open>replace("V", "")\<close> drops exactly the bytes \<open>V\<close>.
  \<open>int(s)\<close> is modelled on ASCII text: surrounding white space is stripped, one sign is
  allowed, and the digits may be grouped by single underscores. Decimal digits and white
  space outside ASCII, which the interpreter accepts as well, and the interpreter's limit
  on the length of a decimal conversion are not modelled.
\<close>

definition is_space :: "char \<Rightarrow> bool" where
  "is_space c =
     (let n = (of_char c :: nat) in (9 \<le> n \<and> n \<le> 13) \<or> (28 \<le> n \<and> n \<le> 32))"

definition is_digit :: "char \<Rightarrow> bool" where
  "is_digit c = (48 \<le> (of_char c :: nat) \<and> (of_char c :: nat) \<le> 57)"

definition digit_val :: "char \<Rightarrow> nat" where
  "digit_val c = of_char c - 48"

definition digit_char :: "nat \<Rightarrow> char" where
  "digit_char d = char_of (48 + d)"

fun str_nat :: "nat \<Rightarrow> string" where
  "str_nat n =
     (if n < 10 then [digit_char n] else str_nat (n div 10) @ [digit_char (n mod 10)])"

declare str_nat.simps [simp del]

definition py_str :: "int \<Rightarrow> string" where
  \<comment> \<open>\<open>str(i)\<close>, also what an f-string prints for an integer\<close>
  "py_str i = (if i < 0 then CHR ''-'' # str_nat (nat (- i)) else str_nat (nat i))"

fun int_digits :: "nat \<Rightarrow> string \<Rightarrow> nat option" where
  "int_digits acc [] = Some acc"
| "int_digits acc [c] = (if is_digit c then Some (10 * acc + digit_val c) else None)"
| "int_digits acc (c # d # cs) =
     (if is_digit c then int_digits (10 * acc + digit_val c) (d # cs)
      else if c = CHR ''_'' \<and> is_digit d then int_digits (10 * acc + digit_val d) cs
      else None)"

definition int_unsigned :: "string \<Rightarrow> nat option" where
  "int_unsigned s =
     (case s of
        [] \<Rightarrow> None
      | c # cs \<Rightarrow> if is_digit c then int_digits (digit_val c) cs else None)"

definition strip :: "string \<Rightarrow> string" where
  "strip s = rev (dropWhile is_space (rev (dropWhile is_space s)))"

definition py_int :: "string \<Rightarrow> int option" where
  \<comment> \<open>\<open>int(s)\<close>; \<open>None\<close> is the \<open>ValueError\<close>\<close>
  "py_int s =
     (case strip s of
        [] \<Rightarrow> None
      | c # cs \<Rightarrow>
          if c = CHR ''-'' then map_option (\<lambda>n. - int n) (int_unsigned cs)
          else if c = CHR ''+'' then map_option int (int_unsigned cs)
          else map_option int (int_unsigned (c # cs)))"

definition startswith :: "string \<Rightarrow> string \<Rightarrow> bool" where
  "startswith s p = (take (length p) s = p)"

definition str_replace :: "string \<Rightarrow> char \<Rightarrow> string \<Rightarrow> string" where
  \<comment> \<open>\<open>s.replace(old, new)\<close> for a pattern \<open>old\<close> of one character\<close>
  "str_replace s old new = concat (map (\<lambda>c. if c = old then new else [c]) s)"

definition ascii_ignore :: "string \<Rightarrow> string" where
  \<comment> \<open>\<open>s.encode('ascii', 'ignore').decode('ascii')\<close>\<close>
  "ascii_ignore s = filter (\<lambda>c. (of_char c :: nat) < 128) s"

definition path_join :: "string \<Rightarrow> string \<Rightarrow> string" where
  \<comment> \<open>\<open>Path(d) / p\<close>: an absolute right operand replaces the left one\<close>
  "path_join d p = (if startswith p ''/'' then p else d @ ''/'' @ p)"

definition py_index :: "'a list \<Rightarrow> int \<Rightarrow> 'a option" where
  \<comment> \<open>\<open>xs[i]\<close>: a negative index counts from the end, \<open>None\<close> is the \<open>IndexError\<close>\<close>
  "py_index xs i =
     (let n = int (length xs); j = (if i < 0 then n + i else i)
      in if 0 \<le> j \<and> j < n then Some (xs ! nat j) else None)"


section \<open>Data model\<close>

text \<open>
  The nine physicochemical features, in the order in which \<open>main.py\<close> puts them into the
  array given to the model, and a row of a training table: the features and the label.
\<close>

record features =
  ph :: real
  Hardness :: real
  Solids :: real
  Chloramines :: real
  Sulfate :: real
  Conductivity :: real
  Organic_carbon :: real
  Trihalomethanes :: real
  Turbidity :: real

record row = features +
  Potability :: int

text \<open>One entry of \<open>metadata["versions"]\<close>. The keys read with \<open>.get\<close> are optional.\<close>

record version_info =
  created_at :: string
  description :: string
  training_samples :: int
  incremental_samples :: "int option"
  model_path :: string
  scaler_path :: string
  accuracy :: "real option"
  cv_accuracy :: "real option"

text \<open>
  \<open>self.metadata\<close>. A Python dict keeps its keys in insertion order and \<open>list_versions\<close>
  iterates over it, so the versions are an association list: assignment to a key is
  \<^const>\<open>AList.update\<close> (in place for a key that is present, at the end otherwise),
  \<open>del\<close> is \<^const>\<open>AList.delete\<close>, lookup is \<^const>\<open>map_of\<close>.
\<close>

record metadata =
  current_version :: string
  versions :: "(string \<times> version_info) list"

text \<open>
  An object stored with joblib is known to the sources only through the methods they
  call on it; an object without the method raises \<open>AttributeError\<close>, and
  \<open>hasattr(model, 'predict_proba')\<close> asks whether the method is there.
  \<open>predict_m\<close> is \<open>int(model.predict(x)[0])\<close> and \<open>predict_proba_m\<close> is
  \<open>model.predict_proba(x)[0]\<close> on an array \<open>x\<close> of one row.
\<close>

record artifact =
  predict_m :: "(real list \<Rightarrow> int) option"
  predict_proba_m :: "(real list \<Rightarrow> real list) option"
  transform_m :: "(real list \<Rightarrow> real list) option"

datatype py_error =
    ValueError string
  | FileNotFoundError string
  | AttributeError string
  | IndexError string
  | RuntimeError string
  | LibraryError string

definition str_error :: "py_error \<Rightarrow> string" where
  \<comment> \<open>\<open>str(e)\<close>\<close>
  "str_error e =
     (case e of
        ValueError msg \<Rightarrow> msg
      | FileNotFoundError p \<Rightarrow> ''[Errno 2] No such file or directory: '' @ [CHR 0x27] @ p @ [CHR 0x27]
      | AttributeError msg \<Rightarrow> msg
      | IndexError msg \<Rightarrow> msg
      | RuntimeError msg \<Rightarrow> msg
      | LibraryError msg \<Rightarrow> msg)"

text \<open>
  The manager object together with the files it reads and writes: the metadata file and
  the incremental table (both at fixed names under the versions directory) and the
  joblib files, by path. A write to a file is taken to succeed.
\<close>

record manager =
  models_dir :: string
  metadata :: metadata
  metadata_file :: "metadata option"
  training_data_file :: "row list option"
  files :: "string \<rightharpoonup> artifact"

text \<open>
  What a call of the manager reads from outside: the clock, the base training table at
  \<open>Data-set/train_dataset.csv\<close> (\<open>None\<close> when the file is missing) and the outcome of the
  numeric library on a combined table: the fitted model and scaler, the training accuracy
  and the cross-validation scores, or the exception it raises.
\<close>

record env =
  now :: string
  train_dataset :: "row list option"
  fit :: "row list \<Rightarrow> py_error + (artifact \<times> artifact \<times> real \<times> real list)"

text \<open>The dictionary \<open>_do_retrain\<close> returns, and one entry of what \<open>list_versions\<close> returns.\<close>

record retrain_result =
  success :: bool
  version :: string
  r_training_samples :: int
  r_incremental_samples :: int
  r_accuracy :: real
  r_cv_accuracy :: real
  cv_scores :: "real list"
  message :: string

record version_view =
  v_version :: string
  v_created_at :: string
  v_description :: string
  v_training_samples :: int
  v_accuracy :: real
  v_cv_accuracy :: real
  is_current :: bool


section \<open>The model version manager (\<open>src/model_manager.py\<close>)\<close>

definition versions_dir :: "manager \<Rightarrow> string" where
  "versions_dir m = path_join (models_dir m) ''versions''"

definition initial_metadata :: "string \<Rightarrow> metadata" where
  "initial_metadata t =
     \<lparr>current_version = ''Original'',
      versions =
        [(''Original'',
          \<lparr>created_at = t,
           description = ''Original ensemble model (RF + XGBoost + GB)'',
           training_samples = 2293,
           incremental_samples = None,
           model_path = ''model.joblib'',
           scaler_path = ''scaler.joblib'',
           accuracy = Some (8439 / 10000),
           cv_accuracy = Some (6424 / 10000)\<rparr>)]\<rparr>"

definition save_metadata :: "manager \<Rightarrow> manager" where
  "save_metadata m = m\<lparr>metadata_file := Some (metadata m)\<rparr>"

definition load_metadata :: "string \<Rightarrow> manager \<Rightarrow> manager" where
  "load_metadata t m =
     (case metadata_file m of
        Some md \<Rightarrow> m\<lparr>metadata := md\<rparr>
      | None \<Rightarrow> save_metadata (m\<lparr>metadata := initial_metadata t\<rparr>))"

definition new_manager ::
  "string \<Rightarrow> string \<Rightarrow> metadata option \<Rightarrow> row list option \<Rightarrow> (string \<rightharpoonup> artifact) \<Rightarrow> manager"
where
  \<comment> \<open>\<open>__init__\<close> at time \<open>t\<close> on the files found on disk\<close>
  "new_manager t dir mf tf fs =
     load_metadata t
       \<lparr>models_dir = dir,
        metadata = \<lparr>current_version = [], versions = []\<rparr>,
        metadata_file = mf,
        training_data_file = tf,
        files = fs\<rparr>"

definition get_current_version :: "manager \<Rightarrow> string" where
  "get_current_version m = current_version (metadata m)"

definition view :: "string \<Rightarrow> string \<times> version_info \<Rightarrow> version_view" where
  "view cur p =
     (case p of (version_name, info) \<Rightarrow>
        \<lparr>v_version = version_name,
         v_created_at = created_at info,
         v_description = description info,
         v_training_samples = training_samples info,
         v_accuracy = (case accuracy info of Some a \<Rightarrow> a | None \<Rightarrow> 0),
         v_cv_accuracy = (case cv_accuracy info of Some a \<Rightarrow> a | None \<Rightarrow> 0),
         is_current = (version_name = cur)\<rparr>)"

definition sort_key :: "version_view \<Rightarrow> nat \<times> int" where
  "sort_key v =
     (if v_version v = ''Original'' then (0, 0)
      else (case py_int (str_replace (v_version v) CHR ''V'' '''') of
              Some num \<Rightarrow> (1, num)
            | None \<Rightarrow> (2, 0)))"

definition list_versions :: "manager \<Rightarrow> version_view list" where
  \<comment> \<open>\<open>list.sort\<close> is stable, as is \<^const>\<open>List.sort_key\<close>\<close>
  "list_versions m =
     List.sort_key sort_key
       (map (view (current_version (metadata m))) (versions (metadata m)))"

definition switch_version :: "manager \<Rightarrow> string \<Rightarrow> manager \<times> bool" where
  "switch_version m version_name =
     (if map_of (versions (metadata m)) version_name = None then (m, False)
      else (save_metadata (m\<lparr>metadata := (metadata m)\<lparr>current_version := version_name\<rparr>\<rparr>),
            True))"

definition joblib_load :: "(string \<rightharpoonup> artifact) \<Rightarrow> string \<Rightarrow> py_error + artifact" where
  "joblib_load fs p = (case fs p of None \<Rightarrow> Inl (FileNotFoundError p) | Some a \<Rightarrow> Inr a)"

definition artifact_dir :: "manager \<Rightarrow> string \<Rightarrow> string" where
  \<comment> \<open>the directory against which \<open>load_model_and_scaler\<close> resolves a version's paths\<close>
  "artifact_dir m version_name =
     (if version_name = ''Original'' then models_dir m else versions_dir m)"

definition load_model_and_scaler ::
  "manager \<Rightarrow> string option \<Rightarrow> py_error + (artifact \<times> artifact)"
where
  "load_model_and_scaler m vn =
     (let version_name = (case vn of None \<Rightarrow> current_version (metadata m) | Some n \<Rightarrow> n) in
      case map_of (versions (metadata m)) version_name of
        None \<Rightarrow> Inl (ValueError (''Version '' @ version_name @ '' not found''))
      | Some info \<Rightarrow>
          (case joblib_load (files m) (path_join (artifact_dir m version_name) (model_path info)) of
             Inl e \<Rightarrow> Inl e
           | Inr model \<Rightarrow>
               (case joblib_load (files m)
                       (path_join (artifact_dir m version_name) (scaler_path info)) of
                  Inl e \<Rightarrow> Inl e
                | Inr scaler \<Rightarrow> Inr (model, scaler))))"

definition version_nums :: "string list \<Rightarrow> int list" where
  "version_nums names =
     List.map_filter
       (\<lambda>version_name.
          if startswith version_name ''V''
          then py_int (str_replace version_name CHR ''V'' '''')
          else None)
       names"

definition next_num :: "metadata \<Rightarrow> int" where
  "next_num md =
     (let nums = version_nums (map fst (versions md))
      in if nums \<noteq> [] then Max (set nums) + 1 else 1)"

definition get_next_version_number :: "metadata \<Rightarrow> string" where
  "get_next_version_number md = ''V'' @ py_str (next_num md)"

definition dict_get :: "(string \<rightharpoonup> real) \<Rightarrow> string \<Rightarrow> real" where
  \<comment> \<open>\<open>new_data.get(key, 0)\<close>\<close>
  "dict_get d k = (case d k of Some x \<Rightarrow> x | None \<Rightarrow> 0)"

definition new_row :: "(string \<rightharpoonup> real) \<Rightarrow> int \<Rightarrow> row" where
  "new_row new_data actual_label =
     \<lparr>ph = dict_get new_data ''ph'',
      Hardness = dict_get new_data ''Hardness'',
      Solids = dict_get new_data ''Solids'',
      Chloramines = dict_get new_data ''Chloramines'',
      Sulfate = dict_get new_data ''Sulfate'',
      Conductivity = dict_get new_data ''Conductivity'',
      Organic_carbon = dict_get new_data ''Organic_carbon'',
      Trihalomethanes = dict_get new_data ''Trihalomethanes'',
      Turbidity = dict_get new_data ''Turbidity'',
      Potability = actual_label\<rparr>"

definition incremental_rows :: "manager \<Rightarrow> row list" where
  \<comment> \<open>the incremental table as read at the start of a retrain: empty when there is no file\<close>
  "incremental_rows m = (case training_data_file m of Some rows \<Rightarrow> rows | None \<Rightarrow> [])"

definition retraining_error :: "py_error \<Rightarrow> py_error" where
  \<comment> \<open>the \<open>except Exception\<close> handler of \<open>_do_retrain\<close>\<close>
  "retraining_error e = RuntimeError (''Retraining error: '' @ ascii_ignore (str_error e))"

definition mean :: "real list \<Rightarrow> real" where
  "mean xs = sum_list xs / real (length xs)"

definition register_version ::
  "env \<Rightarrow> manager \<Rightarrow> row list \<Rightarrow> row list \<Rightarrow> artifact \<times> artifact \<times> real \<times> real list \<Rightarrow>
   manager \<times> retrain_result"
where
  \<comment> \<open>the last part of \<open>_do_retrain\<close>, from the minting of the name to the return\<close>
  "register_version e m incremental_df combined_df fitted =
     (case fitted of (new_model, new_scaler, train_accuracy, scores) \<Rightarrow>
        let new_version_name = get_next_version_number (metadata m);
            model_filename = ''model_'' @ new_version_name @ ''.joblib'';
            scaler_filename = ''scaler_'' @ new_version_name @ ''.joblib'';
            m1 = m\<lparr>files := (files m)
                   (path_join (versions_dir m) model_filename \<mapsto> new_model,
                    path_join (versions_dir m) scaler_filename \<mapsto> new_scaler)\<rparr>;
            info = \<lparr>created_at = now e,
                    description = ''Retrained with '' @ py_str (int (length incremental_df))
                                  @ '' additional sample(s)'',
                    training_samples = int (length combined_df),
                    incremental_samples = Some (int (length incremental_df)),
                    model_path = model_filename,
                    scaler_path = scaler_filename,
                    accuracy = Some train_accuracy,
                    cv_accuracy = Some (mean scores)\<rparr>;
            m2 = m1\<lparr>metadata := (metadata m1)
                   \<lparr>versions := AList.update new_version_name info (versions (metadata m1))\<rparr>\<rparr>;
            m3 = m2\<lparr>metadata := (metadata m2)\<lparr>current_version := new_version_name\<rparr>\<rparr>
        in (save_metadata m3,
            \<lparr>success = True,
             version = new_version_name,
             r_training_samples = int (length combined_df),
             r_incremental_samples = int (length incremental_df),
             r_accuracy = train_accuracy,
             r_cv_accuracy = mean scores,
             cv_scores = scores,
             message = ''Model '' @ new_version_name @ '' trained successfully with ''
                       @ py_str (int (length combined_df)) @ '' samples''\<rparr>))"

definition do_retrain ::
  "env \<Rightarrow> manager \<Rightarrow> (string \<rightharpoonup> real) \<Rightarrow> int \<Rightarrow> manager \<times> (py_error + retrain_result)"
where
  \<comment> \<open>\<open>_do_retrain\<close>: the manager and the files after the call, and what the call raises or returns\<close>
  "do_retrain e m new_data actual_label =
     (case load_model_and_scaler m None of
        Inl err \<Rightarrow> (m, Inl (retraining_error err))
      | Inr current \<Rightarrow>
          let incremental_df = incremental_rows m @ [new_row new_data actual_label];
              m1 = m\<lparr>training_data_file := Some incremental_df\<rparr>
          in (case train_dataset e of
                None \<Rightarrow>
                  (m1, Inl (retraining_error (FileNotFoundError ''Data-set/train_dataset.csv'')))
              | Some original_train \<Rightarrow>
                  let combined_df = original_train @ incremental_df
                  in (case fit e combined_df of
                        Inl err \<Rightarrow> (m1, Inl (retraining_error err))
                      | Inr fitted \<Rightarrow>
                          (case register_version e m1 incremental_df combined_df fitted of
                             (m2, res) \<Rightarrow> (m2, Inr res)))))"

definition retrain_incremental ::
  "env \<Rightarrow> manager \<Rightarrow> (string \<rightharpoonup> real) \<Rightarrow> int \<Rightarrow> manager \<times> (py_error + retrain_result)"
where
  \<comment> \<open>the redirection of the output streams around the call has no effect on the manager\<close>
  "retrain_incremental e m new_data actual_label = do_retrain e m new_data actual_label"

definition delete_version :: "manager \<Rightarrow> string \<Rightarrow> manager \<times> bool" where
  "delete_version m version_name =
     (if version_name = ''Original'' then (m, False)
      else if version_name = current_version (metadata m) then (m, False)
      else (case map_of (versions (metadata m)) version_name of
              None \<Rightarrow> (m, False)
            | Some info \<Rightarrow>
                let m1 = m\<lparr>files := (files m)
                       (path_join (versions_dir m) (model_path info) := None,
                        path_join (versions_dir m) (scaler_path info) := None)\<rparr>;
                    m2 = m1\<lparr>metadata := (metadata m1)
                       \<lparr>versions := AList.delete version_name (versions (metadata m1))\<rparr>\<rparr>
                in (save_metadata m2, True)))"

text \<open>A sequence of calls on the manager, each retrain with what it finds outside.\<close>

datatype op =
    Switch string
  | Retrain env "string \<rightharpoonup> real" int
  | Delete string

fun apply_op :: "manager \<Rightarrow> op \<Rightarrow> manager" where
  "apply_op m (Switch n) = fst (switch_version m n)"
| "apply_op m (Retrain e d l) = fst (retrain_incremental e m d l)"
| "apply_op m (Delete n) = fst (delete_version m n)"

definition run_ops :: "manager \<Rightarrow> op list \<Rightarrow> manager" where
  "run_ops m ops = foldl apply_op m ops"


section \<open>The prediction endpoint (\<open>main.py\<close>)\<close>

text \<open>The module's globals \<open>model\<close> and \<open>scaler\<close>; \<open>None\<close> as in the source.\<close>

record app =
  model :: "artifact option"
  scaler :: "artifact option"

datatype http_error = HTTPException nat string

record prediction_response =
  potability :: int
  potability_label :: string
  confidence :: real

definition MODEL_PATH :: string where
  "MODEL_PATH = ''models/model.joblib''"

definition SCALER_PATH :: string where
  "SCALER_PATH = ''models/scaler.joblib''"

definition load_model :: "manager \<Rightarrow> app \<Rightarrow> py_error + app" where
  "load_model mgr g =
     (case load_model_and_scaler mgr (Some (get_current_version mgr)) of
        Inr (mo, sc) \<Rightarrow> Inr (g\<lparr>model := Some mo, scaler := Some sc\<rparr>)
      | Inl e \<Rightarrow>
          (case files mgr MODEL_PATH of
             None \<Rightarrow>
               Inl (FileNotFoundError
                     (''Model file not found at '' @ MODEL_PATH
                      @ ''. Please train the model first by running: dvc repro''))
           | Some mo \<Rightarrow>
               Inr (g\<lparr>model := Some mo,
                      scaler := (case files mgr SCALER_PATH of
                                   Some sc \<Rightarrow> Some sc
                                 | None \<Rightarrow> scaler g)\<rparr>)))"

definition input_data :: "features \<Rightarrow> real list" where
  "input_data f =
     [ph f, Hardness f, Solids f, Chloramines f, Sulfate f, Conductivity f,
      Organic_carbon f, Trihalomethanes f, Turbidity f]"

definition infer :: "app \<Rightarrow> features \<Rightarrow> py_error + prediction_response" where
  \<comment> \<open>the second \<open>try\<close> block of \<open>predict\<close>\<close>
  "infer g f =
     (case (case scaler g of
              None \<Rightarrow> Inr (input_data f)
            | Some sc \<Rightarrow>
                (case transform_m sc of
                   None \<Rightarrow> Inl (AttributeError ''transform'')
                 | Some t \<Rightarrow> Inr (t (input_data f)))) of
        Inl e \<Rightarrow> Inl e
      | Inr x \<Rightarrow>
          (case model g of
             None \<Rightarrow> Inl (AttributeError ''predict'')
           | Some mo \<Rightarrow>
               (case predict_m mo of
                  None \<Rightarrow> Inl (AttributeError ''predict'')
                | Some p \<Rightarrow>
                    let prediction = p x in
                    (case (case predict_proba_m mo of
                             Some proba \<Rightarrow>
                               (case py_index (proba x) prediction of
                                  None \<Rightarrow> Inl (IndexError ''index out of bounds'')
                                | Some c \<Rightarrow> Inr c)
                           | None \<Rightarrow> Inr 1) of
                       Inl e \<Rightarrow> Inl e
                     | Inr conf \<Rightarrow>
                         Inr \<lparr>potability = prediction,
                              potability_label =
                                (if prediction = 1 then ''Potable'' else ''Not Potable''),
                              confidence = conf\<rparr>))))"

definition predict :: "manager \<Rightarrow> app \<Rightarrow> features \<Rightarrow> app \<times> (http_error + prediction_response)" where
  "predict mgr g f =
     (case (if model g = None then load_model mgr g else Inr g) of
        Inl e \<Rightarrow> (g, Inl (HTTPException 503 (''Model not available: '' @ str_error e)))
      | Inr g1 \<Rightarrow>
          (case infer g1 f of
             Inl e \<Rightarrow> (g1, Inl (HTTPException 500 (''Prediction failed: '' @ str_error e)))
           | Inr r \<Rightarrow> (g1, Inr r)))"

definition valid_features :: "features \<Rightarrow> bool" where
  \<comment> \<open>the bounds of \<open>WaterQualityFeatures\<close>\<close>
  "valid_features f =
     (0 \<le> ph f \<and> ph f \<le> 14 \<and> 0 \<le> Hardness f \<and> 0 \<le> Solids f \<and> 0 \<le> Chloramines f \<and>
      0 \<le> Sulfate f \<and> 0 \<le> Conductivity f \<and> 0 \<le> Organic_carbon f \<and>
      0 \<le> Trihalomethanes f \<and> 0 \<le> Turbidity f)"


section \<open>Concrete states\<close>

text \<open>
  A fresh deployment: no metadata file and no incremental table yet, the two base
  artifacts in place. The states below are the inputs at which the theorems are
  exercised.
\<close>

abbreviation registered :: "manager \<Rightarrow> string set" where
  "registered m \<equiv> fst ` set (versions (metadata m))"

definition ex_obj :: artifact where
  "ex_obj = \<lparr>predict_m = None, predict_proba_m = None, transform_m = None\<rparr>"

definition ex_files :: "string \<rightharpoonup> artifact" where
  "ex_files = map_of [(''models/model.joblib'', ex_obj), (''models/scaler.joblib'', ex_obj)]"

definition ex_manager :: manager where
  "ex_manager = new_manager ''2024-01-01T00:00:00'' ''models'' None None ex_files"


section \<open>Integer conversions round-trip\<close>

lemma is_digit_digit_char: "d < 10 \<Longrightarrow> is_digit (digit_char d)"
  by (simp add: is_digit_def digit_char_def)

lemma digit_val_digit_char: "d < 10 \<Longrightarrow> digit_val (digit_char d) = d"
  by (simp add: digit_val_def digit_char_def)

lemma is_digit_not_space: "is_digit c \<Longrightarrow> \<not> is_space c"
  by (auto simp: is_digit_def is_space_def Let_def)

lemma is_digit_not_sign:
  "is_digit c \<Longrightarrow> c \<noteq> CHR ''-'' \<and> c \<noteq> CHR ''+'' \<and> c \<noteq> CHR ''V''"
  by (auto simp: is_digit_def)

lemma int_digits_all:
  "\<forall>c\<in>set ds. is_digit c \<Longrightarrow>
   int_digits acc ds = Some (foldl (\<lambda>a c. 10 * a + digit_val c) acc ds)"
  by (induction acc ds rule: int_digits.induct) auto

lemma str_nat_digits: "c \<in> set (str_nat n) \<Longrightarrow> is_digit c"
proof (induction n arbitrary: c rule: str_nat.induct)
  case (1 n)
  show ?case
  proof (cases "n < 10")
    case True
    with "1.prems" show ?thesis
      by (simp add: str_nat.simps [of n] is_digit_digit_char)
  next
    case False
    with "1.prems" "1.IH" show ?thesis
      by (auto simp: str_nat.simps [of n] is_digit_digit_char)
  qed
qed

lemma str_nat_nonempty: "str_nat n \<noteq> []"
  by (subst str_nat.simps) simp

lemma foldl_str_nat: "foldl (\<lambda>a c. 10 * a + digit_val c) 0 (str_nat n) = n"
proof (induction n rule: str_nat.induct)
  case (1 n)
  show ?case
  proof (cases "n < 10")
    case True
    then show ?thesis
      by (simp add: str_nat.simps [of n] digit_val_digit_char)
  next
    case False
    with "1.IH" show ?thesis
      by (simp add: str_nat.simps [of n] digit_val_digit_char)
  qed
qed

lemma int_unsigned_str_nat: "int_unsigned (str_nat n) = Some n"
proof (cases "str_nat n")
  case Nil
  then show ?thesis by (simp add: str_nat_nonempty)
next
  case (Cons c cs)
  have dig: "\<forall>x\<in>set (c # cs). is_digit x"
    using str_nat_digits [of _ n] Cons by auto
  have "foldl (\<lambda>a c. 10 * a + digit_val c) 0 (c # cs) = n"
    using foldl_str_nat [of n] Cons by simp
  with dig show ?thesis
    by (simp add: int_unsigned_def Cons int_digits_all)
qed

lemma strip_no_space: "\<forall>c\<in>set s. \<not> is_space c \<Longrightarrow> strip s = s"
proof (cases s rule: rev_cases)
  case Nil
  then show ?thesis by (simp add: strip_def)
next
  case (snoc ys y)
  assume a: "\<forall>c\<in>set s. \<not> is_space c"
  have "dropWhile is_space s = s"
    using a by (cases s) auto
  moreover have "dropWhile is_space (rev s) = rev s"
    using a snoc by simp
  ultimately show ?thesis by (simp add: strip_def)
qed

lemma py_int_py_str: "py_int (py_str i) = Some i"
proof (cases "i < 0")
  case True
  have "\<forall>c\<in>set (CHR ''-'' # str_nat (nat (- i))). \<not> is_space c"
    using str_nat_digits is_digit_not_space by (auto simp: is_space_def Let_def)
  then have "strip (py_str i) = CHR ''-'' # str_nat (nat (- i))"
    using True by (simp add: py_str_def strip_no_space)
  then show ?thesis
    using True by (simp add: py_int_def int_unsigned_str_nat)
next
  case False
  obtain c cs where cs: "str_nat (nat i) = c # cs"
    using str_nat_nonempty [of "nat i"] by (cases "str_nat (nat i)") auto
  have dig: "is_digit c"
    using str_nat_digits [of c "nat i"] cs by simp
  have "\<forall>c\<in>set (str_nat (nat i)). \<not> is_space c"
    using str_nat_digits is_digit_not_space by blast
  then have "strip (py_str i) = c # cs"
    using False cs by (simp add: py_str_def strip_no_space)
  moreover have "int_unsigned (c # cs) = Some (nat i)"
    using int_unsigned_str_nat [of "nat i"] cs by simp
  ultimately show ?thesis
    using False dig is_digit_not_sign [of c] by (simp add: py_int_def)
qed


section \<open>Lookup and the fresh deployment\<close>

lemma map_of_None_keys:
  "(map_of (versions (metadata m)) n = None) = (n \<notin> registered m)"
  by (simp add: map_of_eq_None_iff)

lemma ex_manager_simps:
  "models_dir ex_manager = ''models''"
  "current_version (metadata ex_manager) = ''Original''"
  "map fst (versions (metadata ex_manager)) = [''Original'']"
  "metadata_file ex_manager = Some (metadata ex_manager)"
  "training_data_file ex_manager = None"
  "files ex_manager = ex_files"
  by (simp_all add: ex_manager_def new_manager_def load_metadata_def save_metadata_def
      initial_metadata_def)

lemma registered_ex: "registered ex_manager = {''Original''}"
  using ex_manager_simps(3) by (metis list.set_map list.simps(15) set_empty2 empty_set)


section \<open>Switching the current version\<close>

text \<open>
  C6. \<open>switch_version\<close> returns \<open>False\<close> and leaves the manager (so also what
  \<open>get_current_version\<close> returns) as it was when the name is not a key of the registry.
  For a name that is a key it returns \<open>True\<close>; afterwards \<open>get_current_version\<close> returns
  the name, the versions are the same, and the metadata file holds the new metadata.
\<close>

theorem switch_version_spec:
  "(name \<notin> registered m \<longrightarrow> switch_version m name = (m, False)) \<and>
   (name \<in> registered m \<longrightarrow>
      snd (switch_version m name) = True \<and>
      get_current_version (fst (switch_version m name)) = name \<and>
      versions (metadata (fst (switch_version m name))) = versions (metadata m) \<and>
      metadata_file (fst (switch_version m name)) = Some (metadata (fst (switch_version m name))))"
  by (simp add: switch_version_def map_of_None_keys save_metadata_def get_current_version_def)

theorem switch_version_spec_witness:
  "switch_version ex_manager ''does-not-exist'' = (ex_manager, False) \<and>
   snd (switch_version ex_manager ''Original'') = True \<and>
   get_current_version (fst (switch_version ex_manager ''Original'')) = ''Original''"
  using switch_version_spec [of "''does-not-exist''" ex_manager]
    switch_version_spec [of "''Original''" ex_manager]
  by (simp add: registered_ex)

end
